theory Spec2Isabelle
  imports Complex_Main "HOL-Library.Monad_Syntax"
begin

section \<open>JavaScript numbers\<close>

text \<open>
  A JavaScript number is an IEEE-754 binary64 value: NaN, one of the two infinities, or a
  finite value, kept as the real it denotes. Every arithmetic operation computes the exact
  result and rounds it to the nearest binary64 value, ties to even, with overflow to an
  infinity; a decimal literal of the source denotes the binary64 value nearest to it. The
  sign of zero is not modelled. The special values follow ECMAScript: NaN is absorbing,
  \<open>Infinity - Infinity\<close> and \<open>0 * Infinity\<close> are NaN, every comparison with NaN is false.
\<close>

datatype jsnum = NaN | PInf | NInf | Fin real

subsection \<open>Rounding to binary64\<close>

text \<open>
  \<open>exponent x\<close> is the binary exponent of \<open>x\<close>, found by halving or doubling: the \<open>e\<close> with
  \<open>2^e \<le> |x| < 2^(e+1)\<close>, but never below -1022 (the subnormal range shares the least
  exponent) and never above 1024 (where the value overflows anyway).
\<close>

fun exp_up :: "nat \<Rightarrow> real \<Rightarrow> int" where
  "exp_up 0 x = 0"
| "exp_up (Suc n) x = (if 2 \<le> x then 1 + exp_up n (x / 2) else 0)"

fun exp_down :: "nat \<Rightarrow> real \<Rightarrow> int" where
  "exp_down 0 x = 0"
| "exp_down (Suc n) x = (if x < 1 then exp_down n (x * 2) - 1 else 0)"

definition exponent :: "real \<Rightarrow> int" where
  "exponent x = (if 1 \<le> \<bar>x\<bar> then exp_up 1024 \<bar>x\<bar> else exp_down 1022 \<bar>x\<bar>)"

text \<open>The nearest integer, a tie going to the even one.\<close>

definition round_even :: "real \<Rightarrow> int" where
  "round_even y =
     (let f = \<lfloor>y\<rfloor>; d = y - of_int f
      in if d < 1 / 2 then f else if 1 / 2 < d then f + 1 else if even f then f else f + 1)"

text \<open>\<open>scale x e\<close> is \<open>x\<close> times \<open>2^e\<close>.\<close>

definition scale :: "real \<Rightarrow> int \<Rightarrow> real" where
  "scale x e = (if 0 \<le> e then x * 2 ^ nat e else x / 2 ^ nat (- e))"

text \<open>
  A binary64 value has 53 significant bits: the exact result is rounded to a multiple of
  \<open>2^(exponent - 52)\<close>, and a rounded magnitude of \<open>2^1024\<close> or more is an infinity.
\<close>

definition round64 :: "real \<Rightarrow> jsnum" where
  "round64 x =
     (let e = exponent x - 52; r = scale (of_int (round_even (scale x (- e)))) e
      in if 2 ^ 1024 \<le> \<bar>r\<bar> then (if 0 < x then PInf else NInf) else Fin r)"

text \<open>The value of a decimal literal of the source.\<close>

definition double :: "real \<Rightarrow> jsnum" where
  "double x = round64 x"

subsection \<open>Operations\<close>

fun isNaN :: "jsnum \<Rightarrow> bool" where
  "isNaN NaN = True"
| "isNaN _ = False"

fun js_neg :: "jsnum \<Rightarrow> jsnum" where
  "js_neg NaN = NaN"
| "js_neg PInf = NInf"
| "js_neg NInf = PInf"
| "js_neg (Fin a) = Fin (- a)"

fun js_add :: "jsnum \<Rightarrow> jsnum \<Rightarrow> jsnum" where
  "js_add NaN y = NaN"
| "js_add x NaN = NaN"
| "js_add (Fin a) (Fin b) = round64 (a + b)"
| "js_add (Fin a) y = y"
| "js_add x (Fin b) = x"
| "js_add PInf PInf = PInf"
| "js_add NInf NInf = NInf"
| "js_add PInf NInf = NaN"
| "js_add NInf PInf = NaN"

definition js_sub :: "jsnum \<Rightarrow> jsnum \<Rightarrow> jsnum" where
  "js_sub x y = js_add x (js_neg y)"

fun js_mul :: "jsnum \<Rightarrow> jsnum \<Rightarrow> jsnum" where
  "js_mul NaN y = NaN"
| "js_mul x NaN = NaN"
| "js_mul (Fin a) (Fin b) = round64 (a * b)"
| "js_mul (Fin a) y = (if a = 0 then NaN else if 0 < a then y else js_neg y)"
| "js_mul x (Fin b) = (if b = 0 then NaN else if 0 < b then x else js_neg x)"
| "js_mul PInf y = y"
| "js_mul NInf y = js_neg y"

text \<open>
  Division. The divisors of the program are the literal 100 and a value already tested to be
  greater than 0, so the zero-divisor equations (which take the zero as positive) are never
  reached from the functions below; they are written out to keep the operator total.
\<close>

fun js_div :: "jsnum \<Rightarrow> jsnum \<Rightarrow> jsnum" where
  "js_div NaN y = NaN"
| "js_div x NaN = NaN"
| "js_div (Fin a) (Fin b) =
     (if b = 0 then (if a = 0 then NaN else if 0 < a then PInf else NInf) else round64 (a / b))"
| "js_div (Fin a) y = Fin 0"
| "js_div x (Fin b) = (if 0 \<le> b then x else js_neg x)"
| "js_div x y = NaN"

fun Math_abs :: "jsnum \<Rightarrow> jsnum" where
  "Math_abs NaN = NaN"
| "Math_abs PInf = PInf"
| "Math_abs NInf = PInf"
| "Math_abs (Fin a) = Fin \<bar>a\<bar>"

text \<open>The relational operator \<open><\<close>; \<open>x > y\<close> is \<open>js_lt y x\<close>.\<close>

fun js_lt :: "jsnum \<Rightarrow> jsnum \<Rightarrow> bool" where
  "js_lt NaN y = False"
| "js_lt x NaN = False"
| "js_lt (Fin a) (Fin b) = (a < b)"
| "js_lt NInf NInf = False"
| "js_lt NInf y = True"
| "js_lt x NInf = False"
| "js_lt PInf y = False"
| "js_lt x PInf = True"

definition js_gt :: "jsnum \<Rightarrow> jsnum \<Rightarrow> bool" where
  "js_gt x y = js_lt y x"

definition Math_max :: "jsnum \<Rightarrow> jsnum \<Rightarrow> jsnum" where
  "Math_max x y = (if isNaN x \<or> isNaN y then NaN else if js_lt x y then y else x)"

definition Math_min :: "jsnum \<Rightarrow> jsnum \<Rightarrow> jsnum" where
  "Math_min x y = (if isNaN x \<or> isNaN y then NaN else if js_lt y x then y else x)"

text \<open>Truthiness of a number, and \<open>x || d\<close> on numbers.\<close>

fun truthy :: "jsnum \<Rightarrow> bool" where
  "truthy NaN = False"
| "truthy (Fin a) = (a \<noteq> 0)"
| "truthy _ = True"

definition js_or :: "jsnum \<Rightarrow> jsnum \<Rightarrow> jsnum" where
  "js_or x d = (if truthy x then x else d)"

section \<open>Configuration (config.js) and getConfig (app.js)\<close>

text \<open>
  The emission-factor table. A category object that is absent (\<open>undefined\<close> or \<open>null\<close>) is
  \<open>None\<close>: reading a factor from it throws a TypeError. A leaf is the number that the
  arithmetic sees: an absent leaf is \<open>undefined\<close>, which \<open>*\<close> and \<open>Math.abs\<close> convert to
  NaN and which is falsy like NaN.
\<close>

record transportFactors =
  car :: jsnum
  flightShort :: jsnum
  publicTransport :: jsnum

record energyFactors =
  electricity :: jsnum
  gas :: jsnum

record foodFactors =
  meatMeal :: jsnum
  dairyServing :: jsnum

record wasteFactors =
  wasteBag :: jsnum
  recyclingOffset :: jsnum

record shoppingFactors =
  general :: jsnum
  electronics :: jsnum

record emissionFactorTable =
  transport :: "transportFactors option"
  energy :: "energyFactors option"
  food :: "foodFactors option"
  waste :: "wasteFactors option"
  shopping :: "shoppingFactors option"

record conversionTable =
  kgToTonnes :: jsnum

text \<open>
  Of the configuration object only the two members that calculateFootprint reads are kept.
  \<open>emissionFactors = None\<close> is a falsy member (absent, \<open>null\<close>), \<open>conversions = None\<close> a
  nullish one.
\<close>

record config =
  emissionFactors :: "emissionFactorTable option"
  conversions :: "conversionTable option"

datatype binding = Undefined | Null | Obj config

text \<open>The table written in config.js, which is also the fallback literal of getConfig.\<close>

definition defaultFactors :: emissionFactorTable where
  "defaultFactors =
     \<lparr> transport = Some \<lparr> car = double 0.41, flightShort = double 0.158, publicTransport = double 0.053 \<rparr>,
       energy = Some \<lparr> electricity = double 0.233, gas = double 5.3 \<rparr>,
       food = Some \<lparr> meatMeal = double 7.19, dairyServing = double 2.5 \<rparr>,
       waste = Some \<lparr> wasteBag = double 2.5, recyclingOffset = js_neg (double 1.2) \<rparr>,
       shopping = Some \<lparr> general = double 0.005, electronics = Fin 50 \<rparr> \<rparr>"

definition fallbackConfig :: config where
  "fallbackConfig =
     \<lparr> emissionFactors = Some defaultFactors,
       conversions = Some \<lparr> kgToTonnes = double 0.001 \<rparr> \<rparr>"

section \<open>The page: everything calculateFootprint reads besides its code\<close>

text \<open>
  \<open>inputs\<close> gives, for an element id, \<open>None\<close> when \<open>document.getElementById\<close> finds no
  element and otherwise the number that \<open>parseFloat(element.value)\<close> returns (NaN for text
  that does not start with a number, \<open>Infinity\<close> for the text "Infinity"). The three result
  elements are present or not. \<open>now\<close> is what \<open>new Date().toISOString()\<close> returns.
  \<open>previousLog\<close> is the outcome of \<open>getPreviousCalculation()\<close> on the current
  localStorage: it throws when the stored text is not the JSON of an array of entries,
  returns \<open>null\<close> for an empty array and the entry with the latest date otherwise. Of a
  stored entry only the member \<open>co2e\<close> is read afterwards. It is absent or \<open>null\<close>, a number,
  a boolean, or a text, which is kept together with the number that \<open>parseFloat\<close> reads
  from it (NaN when the text does not start with a number). Objects and arrays as co2e are
  not modelled.
\<close>

datatype co2eValue = NoValue | NumberValue jsnum | BooleanValue bool | TextValue string jsnum

record carbonLogEntry =
  prev_co2e :: co2eValue

text \<open>
  Truthiness of the member, and \<open>parseFloat\<close> of it: a number is converted to its shortest
  decimal text, which reads back as the same number; a boolean reads as NaN.
\<close>

fun truthyValue :: "co2eValue \<Rightarrow> bool" where
  "truthyValue NoValue = False"
| "truthyValue (NumberValue n) = truthy n"
| "truthyValue (BooleanValue b) = b"
| "truthyValue (TextValue s v) = (s \<noteq> [])"

fun parseFloat :: "co2eValue \<Rightarrow> jsnum" where
  "parseFloat (NumberValue n) = n"
| "parseFloat (TextValue s v) = v"
| "parseFloat _ = NaN"

datatype lookup = Throws | Returns "carbonLogEntry option"

record page =
  CONFIG :: binding
  windowCONFIG :: binding
  inputs :: "string \<Rightarrow> jsnum option"
  resultDiv :: bool
  resultValue :: bool
  resultDescription :: bool
  now :: string
  previousLog :: lookup

definition getConfig :: "page \<Rightarrow> binding" where
  "getConfig pg =
     (case CONFIG pg of
        Undefined \<Rightarrow> (case windowCONFIG pg of Obj c \<Rightarrow> Obj c | _ \<Rightarrow> Obj fallbackConfig)
      | c \<Rightarrow> c)"

definition getPreviousCalculation :: "page \<Rightarrow> lookup" where
  "getPreviousCalculation pg = previousLog pg"

section \<open>The calculation (calculateFootprint, app.js)\<close>

definition safeParseFloat :: "(string \<Rightarrow> jsnum option) \<Rightarrow> string \<Rightarrow> jsnum" where
  "safeParseFloat doc elementId =
     (case doc elementId of
        None \<Rightarrow> Fin 0
      | Some v \<Rightarrow> (if isNaN v \<or> js_lt v (Fin 0) then Fin 0 else v))"

record breakdownTonnes =
  transportT :: jsnum
  energyT :: jsnum
  foodT :: jsnum
  wasteT :: jsnum
  shoppingT :: jsnum

record calculation =
  co2e :: jsnum
  category :: string
  timestamp :: string
  breakdown :: "breakdownTonnes option"

record appState =
  currentCalculation :: "calculation option"

text \<open>
  What the \<open>try\<close> block has computed when it reaches the assignment to
  \<open>appState.currentCalculation\<close>: \<open>totalKg\<close> is \<open>totalCo2e\<close> after the last \<open>+=\<close>,
  \<open>wasteKg\<close> is \<open>wasteCo2e\<close>, \<open>tonnes\<close> is \<open>totalTonnes\<close>, \<open>finalTonnes\<close> is
  \<open>finalTotalTonnes\<close> and \<open>parts\<close> the \<open>breakdown\<close> literal; \<open>terms\<close> lists the ten
  emission terms in the order in which they are added to \<open>totalCo2e\<close>, and \<open>factor\<close> is the
  local \<open>kgToTonnes\<close>.
\<close>

record figures =
  terms :: "jsnum list"
  factor :: jsnum
  totalKg :: jsnum
  wasteKg :: jsnum
  tonnes :: jsnum
  finalTonnes :: jsnum
  parts :: breakdownTonnes

text \<open>
  The arithmetic of the \<open>try\<close> block, in the option monad: \<open>None\<close> is the TypeError thrown
  when a category object of the table is absent. \<open>totalCo2e\<close> is rebound at every \<open>+=\<close>, in
  the order of the source.
\<close>

definition tryBlock :: "config \<Rightarrow> emissionFactorTable \<Rightarrow> (string \<Rightarrow> jsnum option) \<Rightarrow> figures option" where
  "tryBlock CONFIG_TO_USE factors doc = do {
     let totalCo2e = Fin 0;
     let carMilesPerDay = safeParseFloat doc ''car-miles'';
     let flightsPerDay = safeParseFloat doc ''flights'';
     let publicTransportPerDay = safeParseFloat doc ''public-transport'';
     tr \<leftarrow> transport factors;
     let transportCarCo2e = js_mul carMilesPerDay (car tr);
     let transportFlightsCo2e = js_mul (js_mul flightsPerDay (Fin 1000)) (flightShort tr);
     let transportPublicCo2e = js_mul publicTransportPerDay (publicTransport tr);
     let totalCo2e = js_add totalCo2e transportCarCo2e;
     let totalCo2e = js_add totalCo2e transportFlightsCo2e;
     let totalCo2e = js_add totalCo2e transportPublicCo2e;
     let electricityPerDay = safeParseFloat doc ''electricity'';
     let gasPerDay = safeParseFloat doc ''gas'';
     let renewablePercent = Math_min (Fin 100) (Math_max (Fin 0) (safeParseFloat doc ''renewable-percent''));
     en \<leftarrow> energy factors;
     let electricityEmissions =
       js_mul (js_mul electricityPerDay (electricity en))
              (js_sub (Fin 1) (js_div renewablePercent (Fin 100)));
     let gasCo2e = js_mul gasPerDay (gas en);
     let totalCo2e = js_add totalCo2e electricityEmissions;
     let totalCo2e = js_add totalCo2e gasCo2e;
     let meatMealsPerDay = safeParseFloat doc ''meat-meals'';
     let dairyPerDay = safeParseFloat doc ''dairy-products'';
     let localFoodPercent = Math_min (Fin 100) (Math_max (Fin 0) (safeParseFloat doc ''local-food''));
     let meatReduction =
       Math_max (double 0.8) (js_sub (Fin 1) (js_mul (js_div localFoodPercent (Fin 100)) (double 0.2)));
     fo \<leftarrow> food factors;
     let foodMeatCo2e = js_mul (js_mul meatMealsPerDay (meatMeal fo)) meatReduction;
     let foodDairyCo2e = js_mul dairyPerDay (dairyServing fo);
     let totalCo2e = js_add totalCo2e foodMeatCo2e;
     let totalCo2e = js_add totalCo2e foodDairyCo2e;
     let wasteBagsPerDay = safeParseFloat doc ''waste-bags'';
     let recyclingPercent = Math_min (Fin 100) (Math_max (Fin 0) (safeParseFloat doc ''recycling-percent''));
     wa \<leftarrow> waste factors;
     let wasteEmissions = js_mul wasteBagsPerDay (wasteBag wa);
     let recyclingOffsetAmount =
       js_mul (js_mul wasteEmissions (js_div recyclingPercent (Fin 100)))
              (Math_abs (recyclingOffset wa));
     let wasteCo2e = js_sub wasteEmissions recyclingOffsetAmount;
     let totalCo2e = js_add totalCo2e wasteCo2e;
     let shoppingSpendPerDay = safeParseFloat doc ''shopping-spend'';
     let electronicsPerDay = safeParseFloat doc ''electronics'';
     sh \<leftarrow> shopping factors;
     let shoppingCo2e = js_mul shoppingSpendPerDay (general sh);
     let electronicsCo2e = js_mul electronicsPerDay (electronics sh);
     let totalCo2e = js_add totalCo2e shoppingCo2e;
     let totalCo2e = js_add totalCo2e electronicsCo2e;
     let kgToTonnesFactor =
       js_or (case conversions CONFIG_TO_USE of None \<Rightarrow> NaN | Some cv \<Rightarrow> kgToTonnes cv) (double 0.001);
     let totalTonnes = js_mul totalCo2e kgToTonnesFactor;
     let finalTotalTonnes = (if isNaN totalTonnes \<or> js_lt totalTonnes (Fin 0) then Fin 0 else totalTonnes);
     Some \<lparr> terms = [transportCarCo2e, transportFlightsCo2e, transportPublicCo2e,
                     electricityEmissions, gasCo2e, foodMeatCo2e, foodDairyCo2e, wasteCo2e,
                     shoppingCo2e, electronicsCo2e],
            factor = kgToTonnesFactor,
            totalKg = totalCo2e,
            wasteKg = wasteCo2e,
            tonnes = totalTonnes,
            finalTonnes = finalTotalTonnes,
            parts = \<lparr> transportT = js_mul (js_add (js_add transportCarCo2e transportFlightsCo2e) transportPublicCo2e) kgToTonnesFactor,
                      energyT = js_mul (js_add electricityEmissions gasCo2e) kgToTonnesFactor,
                      foodT = js_mul (js_add foodMeatCo2e foodDairyCo2e) kgToTonnesFactor,
                      wasteT = js_mul wasteCo2e kgToTonnesFactor,
                      shoppingT = js_mul (js_add shoppingCo2e electronicsCo2e) kgToTonnesFactor \<rparr> \<rparr>
   }"

section \<open>Showing the result (displayCalculationResult, app.js)\<close>

text \<open>
  The description is kept as data instead of text: which of the four base sentences is
  chosen, and which sentence about the previous calculation is appended, with the two
  numbers that the source hands to \<open>toFixed\<close> (the tonnes and the percentage). What the
  page shows is an alert or the rendered result: the number given to
  \<open>resultValue.textContent\<close> and the description, when that element exists.
\<close>

datatype rating = BelowAverage | CloseToAverage | AboveAverage

datatype comparison = NoComparison | Less jsnum jsnum | More jsnum jsnum | Matches

datatype description = EnterValues | Rated rating comparison

datatype shown = ConfigAlert | FootprintAlert jsnum | Result jsnum "description option"

definition compareWithPrevious :: "jsnum \<Rightarrow> carbonLogEntry option \<Rightarrow> comparison" where
  "compareWithPrevious displayValue previousCalculation =
     (case previousCalculation of
        None \<Rightarrow> NoComparison
      | Some p \<Rightarrow>
          (if \<not> truthyValue (prev_co2e p) then NoComparison
           else
                 let previousValue = js_or (parseFloat (prev_co2e p)) (Fin 0);
                     difference = js_sub displayValue previousValue;
                     percentChange =
                       (if js_gt previousValue (Fin 0)
                        then js_mul (js_div difference previousValue) (Fin 100)
                        else Fin 0)
                 in if js_gt (Math_abs difference) (double 0.01)
                    then (if js_lt difference (Fin 0)
                          then Less (Math_abs difference) (Math_abs percentChange)
                          else More difference percentChange)
                    else Matches))"

definition describe :: "jsnum \<Rightarrow> carbonLogEntry option \<Rightarrow> description" where
  "describe displayValue previousCalculation =
     (if displayValue = Fin 0 then EnterValues
      else Rated (if js_lt displayValue (double 0.013) then BelowAverage
                  else if js_lt displayValue (double 0.022) then CloseToAverage
                  else AboveAverage)
                 (compareWithPrevious displayValue previousCalculation))"

definition displayCalculationResult :: "page \<Rightarrow> jsnum \<Rightarrow> carbonLogEntry option \<Rightarrow> shown" where
  "displayCalculationResult pg t previousCalculation =
     (if \<not> resultDiv pg \<or> \<not> resultValue pg then FootprintAlert t
      else
        let displayValue = (if isNaN t \<or> js_lt t (Fin 0) then Fin 0 else t)
        in Result displayValue
             (if resultDescription pg then Some (describe displayValue previousCalculation)
              else None))"

text \<open>The comparison that reaches the user, if any.\<close>

fun reported :: "shown \<Rightarrow> comparison" where
  "reported (Result v (Some (Rated r c))) = c"
| "reported _ = NoComparison"

section \<open>calculateFootprint\<close>

text \<open>
  The function returns a boolean, may assign \<open>appState.currentCalculation\<close> and shows
  something. Console output is not modelled. The \<open>catch\<close> block is reached from a TypeError
  of the arithmetic and from an exception of \<open>getPreviousCalculation\<close>; in both cases it
  overwrites the calculation with the zero result that has no breakdown.
\<close>

record outcome =
  returned :: bool
  state :: appState
  display :: shown

definition catchBlock :: "page \<Rightarrow> appState \<Rightarrow> outcome" where
  "catchBlock pg st =
     (let totalTonnes = Fin 0
      in \<lparr> returned = False,
           state = st \<lparr> currentCalculation :=
                      Some \<lparr> co2e = totalTonnes, category = ''mixed'', timestamp = now pg,
                             breakdown = None \<rparr> \<rparr>,
           display = displayCalculationResult pg totalTonnes None \<rparr>)"

definition calculateFootprint :: "page \<Rightarrow> appState \<Rightarrow> outcome" where
  "calculateFootprint pg st =
     (case getConfig pg of
        Obj CONFIG_TO_USE \<Rightarrow>
          (case emissionFactors CONFIG_TO_USE of
             None \<Rightarrow> \<lparr> returned = False, state = st, display = ConfigAlert \<rparr>
           | Some factors \<Rightarrow>
               (case tryBlock CONFIG_TO_USE factors (inputs pg) of
                  None \<Rightarrow> catchBlock pg st
                | Some fig \<Rightarrow>
                    (case getPreviousCalculation pg of
                       Throws \<Rightarrow> catchBlock pg st
                     | Returns previousCalculation \<Rightarrow>
                         \<lparr> returned = True,
                           state = st \<lparr> currentCalculation :=
                                      Some \<lparr> co2e = finalTonnes fig, category = ''mixed'',
                                             timestamp = now pg, breakdown = Some (parts fig) \<rparr> \<rparr>,
                           display = displayCalculationResult pg (finalTonnes fig) previousCalculation \<rparr>)))
      | _ \<Rightarrow> \<lparr> returned = False, state = st, display = ConfigAlert \<rparr>)"

section \<open>The log store (API.saveCarbonLog and API.getCarbonLogs, api.js)\<close>

text \<open>
  The localStorage item \<open>carbonLogs\<close> is absent (or the empty text), or holds text: text that
  \<open>JSON.parse\<close> rejects, the JSON of something that is not an array, or the JSON of an array
  of entries. A stored entry is what \<open>JSON.parse\<close> returns for it: an object of JSON values,
  kept as a map from member names to values (the order of the members plays no part); such
  an entry is written back by \<open>JSON.stringify\<close> as it was read. A failed \<open>setItem\<close> (quota)
  is not modelled.
\<close>

datatype json = JNull | JBool bool | JNum real | JStr string | JArr "json list"
  | JObj "(string \<times> json) list"

type_synonym logObject = "string \<rightharpoonup> json"

datatype parsed = SyntaxError | NotArray | Array "logObject list"

text \<open>
  The data handed to saveCarbonLog is an object in memory, whose members may hold values
  that JSON cannot express. \<open>JSON.stringify\<close> leaves out a member that is \<open>undefined\<close> and
  writes a number that is NaN or infinite as \<open>null\<close>; every other value is read back as it
  was. Members that are themselves objects or arrays are not modelled (saveCalculation
  passes texts and numbers only).
\<close>

datatype member = MUndefined | MNull | MBool bool | MNumber jsnum | MString string

type_synonym logData = "string \<rightharpoonup> member"

fun toJSON :: "member \<Rightarrow> json option" where
  "toJSON MUndefined = None"
| "toJSON MNull = Some JNull"
| "toJSON (MBool b) = Some (JBool b)"
| "toJSON (MNumber (Fin r)) = Some (JNum r)"
| "toJSON (MNumber n) = Some JNull"
| "toJSON (MString s) = Some (JStr s)"

definition stringify :: "logData \<Rightarrow> logObject" where
  "stringify obj = (\<lambda>k. Option.bind (obj k) toJSON)"

text \<open>\<open>dateNow\<close> is the decimal text of \<open>Date.now()\<close>, \<open>isoString\<close> that of \<open>toISOString()\<close>.\<close>

record clock =
  dateNow :: string
  isoString :: string

text \<open>
  What the promise of saveCarbonLog settles to: rejected by an exception, resolved with the
  new entry (demo mode), or handed to \<open>this.request('/logs', POST)\<close> with the entry as body.
\<close>

datatype saved = Rejected | Resolved logData | Posted logObject

definition getCarbonLogs :: "parsed option \<Rightarrow> parsed" where
  "getCarbonLogs logs = (case logs of None \<Rightarrow> Array [] | Some text \<Rightarrow> text)"

text \<open>
  \<open>demoMode\<close> is \<open>config.app.demoMode\<close> of getApiConfig, \<open>None\<close> when \<open>config.app\<close> is absent
  (a TypeError, raised after the store has been written). The object literal
  \<open>{id, ...logData, timestamp}\<close> lets a member of logData replace the generated id and
  lets the new timestamp replace a timestamp of logData. The store then receives
  \<open>JSON.stringify(logs)\<close>: the entries read before, and the new one as JSON writes it.
  \<open>push\<close> on a value that is not an array, or a parse error, throws before anything is
  written.
\<close>

definition saveCarbonLog :: "clock \<Rightarrow> bool option \<Rightarrow> parsed option \<Rightarrow> logData \<Rightarrow> saved \<times> parsed option" where
  "saveCarbonLog clk demoMode storage logData =
     (case getCarbonLogs storage of
        Array logs \<Rightarrow>
          (let newLog = ((Map.empty(''id'' \<mapsto> MString (''log-'' @ dateNow clk))) ++ logData)
                          (''timestamp'' \<mapsto> MString (isoString clk));
               storage' = Some (Array (logs @ [stringify newLog]))
           in (case demoMode of
                 None \<Rightarrow> (Rejected, storage')
               | Some True \<Rightarrow> (Resolved newLog, storage')
               | Some False \<Rightarrow> (Posted (stringify newLog), storage')))
      | _ \<Rightarrow> (Rejected, storage))"

section \<open>Auxiliary notions and example data\<close>

text \<open>The global \<open>isFinite\<close> on numbers.\<close>

fun isFinite :: "jsnum \<Rightarrow> bool" where
  "isFinite (Fin a) = True"
| "isFinite _ = False"

text \<open>A value that is zero or NaN: what every product with a zero quantity is.\<close>

definition zeroish :: "jsnum \<Rightarrow> bool" where
  "zeroish x = (x = Fin 0 \<or> x = NaN)"

text \<open>
  A factor table with all five categories and finite factors, and a conversion factor that
  is absent or finite: the tables the specification calls valid.
\<close>

definition completeTable :: "emissionFactorTable \<Rightarrow> bool" where
  "completeTable f =
     (case (transport f, energy f, food f, waste f, shopping f) of
        (Some tr, Some en, Some fo, Some wa, Some sh) \<Rightarrow>
           isFinite (car tr) \<and> isFinite (flightShort tr) \<and> isFinite (publicTransport tr)
         \<and> isFinite (electricity en) \<and> isFinite (gas en)
         \<and> isFinite (meatMeal fo) \<and> isFinite (dairyServing fo)
         \<and> isFinite (wasteBag wa) \<and> isFinite (recyclingOffset wa)
         \<and> isFinite (general sh) \<and> isFinite (electronics sh)
      | _ \<Rightarrow> False)"

definition finiteConversion :: "config \<Rightarrow> bool" where
  "finiteConversion cfg =
     (case conversions cfg of None \<Rightarrow> True | Some cv \<Rightarrow> isFinite (kgToTonnes cv) \<or> isNaN (kgToTonnes cv))"

text \<open>The direction that a reported comparison stands for.\<close>

datatype direction = NoDirection | Reduction | Increase | Unchanged

fun directionOf :: "comparison \<Rightarrow> direction" where
  "directionOf NoComparison = NoDirection"
| "directionOf (Less d p) = Reduction"
| "directionOf (More d p) = Increase"
| "directionOf Matches = Unchanged"

text \<open>
  A page with config.js loaded (its values are those of the fallback literal), every result
  element present, no input element filled in and no stored log.
\<close>

definition emptyPage :: page where
  "emptyPage =
     \<lparr> CONFIG = Obj fallbackConfig, windowCONFIG = Obj fallbackConfig,
       inputs = (\<lambda>_. None),
       resultDiv = True, resultValue = True, resultDescription = True,
       now = ''2025-01-01T00:00:00.000Z'', previousLog = Returns None \<rparr>"

definition noCalculation :: appState where
  "noCalculation = \<lparr> currentCalculation = None \<rparr>"

text \<open>The waste example of the specification: two bags a day, all of it recycled.\<close>

definition wastePage :: page where
  "wastePage =
     emptyPage \<lparr> inputs := (\<lambda>_. None)(''waste-bags'' \<mapsto> Fin 2, ''recycling-percent'' \<mapsto> Fin 100) \<rparr>"

text \<open>
  The text "8.98846567431158e307" typed into the electronics field: it reads as the binary64
  value \<open>2^1023\<close>.
\<close>

definition overflowPage :: page where
  "overflowPage = emptyPage \<lparr> inputs := (\<lambda>_. None)(''electronics'' \<mapsto> Fin (2 ^ 1023)) \<rparr>"

text \<open>config.js did not load: neither the global nor \<open>window.CONFIG\<close> is defined.\<close>

definition unloadedPage :: page where
  "unloadedPage =
     emptyPage \<lparr> CONFIG := Undefined, windowCONFIG := Undefined,
                 inputs := (\<lambda>_. None)(''car-miles'' \<mapsto> Fin 20) \<rparr>"

text \<open>A configuration object that has no \<open>emissionFactors\<close> member.\<close>

definition tablelessPage :: page where
  "tablelessPage = emptyPage \<lparr> CONFIG := Obj \<lparr> emissionFactors = None, conversions = None \<rparr> \<rparr>"

text \<open>Twenty car miles a day, computed at two different times, and with an unreadable store.\<close>

definition carPage :: page where
  "carPage = emptyPage \<lparr> inputs := (\<lambda>_. None)(''car-miles'' \<mapsto> Fin 20) \<rparr>"



text \<open>
  The stored total of the twenty car miles: 20 times 0.41 times 0.001 in binary64, which
  prints as 0.008199999999999999.
\<close>

definition carTonnes :: real where
  "carTonnes = 590872271111009 / 72057594037927936"

text \<open>A store with one entry, a clock reading, and the data of a calculation to be saved.\<close>

definition firstLog :: logObject where
  "firstLog = [''id'' \<mapsto> JStr ''log-1735600000000'', ''co2e'' \<mapsto> JNum 1,
               ''timestamp'' \<mapsto> JStr ''2024-12-30T23:06:40.000Z'']"

definition exampleClock :: clock where
  "exampleClock = \<lparr> dateNow = ''1735689600000'', isoString = ''2025-01-01T00:00:00.000Z'' \<rparr>"

definition exampleLogData :: logData where
  "exampleLogData = [''co2e'' \<mapsto> MNumber (Fin 2),
                     ''timestamp'' \<mapsto> MString ''2024-12-31T12:00:00.000Z'']"

definition savedExample :: logObject where
  "savedExample = [''id'' \<mapsto> JStr ''log-1735689600000'', ''co2e'' \<mapsto> JNum 2,
                   ''timestamp'' \<mapsto> JStr ''2025-01-01T00:00:00.000Z'']"

section \<open>Facts about rounding\<close>

lemma exp_up_numeral:
  "exp_up (numeral k) x = (if 2 \<le> x then 1 + exp_up (pred_numeral k) (x / 2) else 0)"
  "exp_up 1 x = (if 2 \<le> x then 1 else 0)"
  by (simp_all add: numeral_eq_Suc)

lemma exp_down_numeral:
  "exp_down (numeral k) x = (if x < 1 then exp_down (pred_numeral k) (x * 2) - 1 else 0)"
  "exp_down 1 x = (if x < 1 then - 1 else 0)"
  by (simp_all add: numeral_eq_Suc)

lemmas round_eval = double_def round64_def exponent_def round_even_def scale_def Let_def
  exp_up_numeral exp_down_numeral

text \<open>The decimal literals of the source as binary64 values.\<close>

lemma literals_decimal:
  "double 0.41 = Fin (7385903388887613 / 18014398509481984)"
  "double 0.158 = Fin (5692549928996307 / 36028797018963968)"
  "double 0.053 = Fin (7638104968020361 / 144115188075855872)"
  "double 0.233 = Fin (8394709705418605 / 36028797018963968)"
  "double 5.3 = Fin (5967269506265907 / 1125899906842624)"
  "double 7.19 = Fin (8095220330198467 / 1125899906842624)"
  "double 2.5 = Fin (5 / 2)"
  "double 1.2 = Fin (5404319552844595 / 4503599627370496)"
  "double 0.005 = Fin (5764607523034235 / 1152921504606846976)"
  "double 0.001 = Fin (1152921504606847 / 1152921504606846976)"
  "double 0.8 = Fin (3602879701896397 / 4503599627370496)"
  "double 0.2 = Fin (3602879701896397 / 18014398509481984)"
  "double 0.01 = Fin (5764607523034235 / 576460752303423488)"
  "double 0.013 = Fin (7493989779944505 / 576460752303423488)"
  "double 0.022 = Fin (3170534137668829 / 144115188075855872)"
  by (simp_all add: round_eval)

lemma literals_reduced:
  "double (41 / 100) = Fin (7385903388887613 / 18014398509481984)"
  "double (79 / 500) = Fin (5692549928996307 / 36028797018963968)"
  "double (53 / 1000) = Fin (7638104968020361 / 144115188075855872)"
  "double (233 / 1000) = Fin (8394709705418605 / 36028797018963968)"
  "double (53 / 10) = Fin (5967269506265907 / 1125899906842624)"
  "double (719 / 100) = Fin (8095220330198467 / 1125899906842624)"
  "double (5 / 2) = Fin (5 / 2)"
  "double (6 / 5) = Fin (5404319552844595 / 4503599627370496)"
  "double (1 / 200) = Fin (5764607523034235 / 1152921504606846976)"
  "double (1 / 1000) = Fin (1152921504606847 / 1152921504606846976)"
  "double (4 / 5) = Fin (3602879701896397 / 4503599627370496)"
  "double (1 / 5) = Fin (3602879701896397 / 18014398509481984)"
  "double (1 / 100) = Fin (5764607523034235 / 576460752303423488)"
  "double (13 / 1000) = Fin (7493989779944505 / 576460752303423488)"
  "double (11 / 500) = Fin (3170534137668829 / 144115188075855872)"
  using literals_decimal by simp_all

lemmas literals = literals_decimal literals_reduced

text \<open>A magnitude of \<open>2^1024\<close> or more overflows.\<close>

lemma exp_up_full: "2 ^ n \<le> x \<Longrightarrow> exp_up n x = int n"
proof (induction n arbitrary: x)
  case 0
  then show ?case by simp
next
  case (Suc n)
  have "(1::real) \<le> 2 ^ n" by simp
  then have "(2::real) \<le> 2 * 2 ^ n" by linarith
  moreover from Suc.prems have "2 * 2 ^ n \<le> x" by simp
  ultimately have "2 \<le> x" by linarith
  moreover from Suc.prems have "2 ^ n \<le> x / 2" by simp
  ultimately show ?case using Suc.IH [of "x / 2"] by simp
qed

lemma round_even_ge_floor: "\<lfloor>y\<rfloor> \<le> round_even y"
  by (simp add: round_even_def Let_def)

lemma round64_overflow:
  assumes "2 ^ 1024 \<le> x"
  shows "round64 x = PInf"
proof -
  have x: "0 < x" "1 \<le> \<bar>x\<bar>" "2 ^ 1024 \<le> \<bar>x\<bar>"
    using assms by (auto intro: order_trans [of _ "2 ^ 1024"] less_le_trans [of _ "2 ^ 1024"])
  have e: "exponent x - 52 = 972"
    using exp_up_full [of 1024 "\<bar>x\<bar>"] x by (simp add: exponent_def)
  have s: "scale x (- 972) = x / 2 ^ 972" "scale y 972 = y * 2 ^ 972" for y
    by (simp_all add: scale_def)
  define m where "m = round_even (x / 2 ^ 972)"
  have "(2::real) ^ 52 * 2 ^ 972 \<le> x"
    using assms by (simp flip: power_add)
  then have "(2::real) ^ 52 \<le> x / 2 ^ 972"
    by (simp add: pos_le_divide_eq)
  then have "(2::int) ^ 52 \<le> \<lfloor>x / 2 ^ 972\<rfloor>"
    by (simp add: le_floor_iff)
  then have "(2::int) ^ 52 \<le> m"
    unfolding m_def using round_even_ge_floor [of "x / 2 ^ 972"] by linarith
  then have "(2::real) ^ 52 \<le> of_int m"
    by (metis of_int_le_iff of_int_numeral of_int_power)
  then have "(2::real) ^ 52 * 2 ^ 972 \<le> of_int m * 2 ^ 972"
    by (intro mult_right_mono) simp_all
  then have "(2::real) ^ 1024 \<le> of_int m * 2 ^ 972"
    by (simp flip: power_add)
  then have big: "(2::real) ^ 1024 \<le> \<bar>of_int m * 2 ^ 972\<bar>"
    by linarith
  have "round64 x = (if 2 ^ 1024 \<le> \<bar>real_of_int m * 2 ^ 972\<bar> then (if 0 < x then PInf else NInf)
                     else Fin (of_int m * 2 ^ 972))"
    by (simp only: round64_def Let_def e s m_def)
  then show ?thesis
    using big x(1) by (simp only: if_True)
qed

lemma round64_0 [simp]: "round64 0 = Fin 0"
  by (simp add: round64_def round_even_def scale_def Let_def)

lemma round64_not_NaN [simp]: "\<not> isNaN (round64 x)" "round64 x \<noteq> NaN"
  by (simp_all add: round64_def Let_def)

lemma round_even_nonneg: "0 \<le> y \<Longrightarrow> 0 \<le> round_even y"
  by (auto simp: round_even_def Let_def)

lemma round_even_nonpos: "y \<le> 0 \<Longrightarrow> round_even y \<le> 0"
  by (auto simp: round_even_def Let_def)

lemma scale_nonneg: "0 \<le> x \<Longrightarrow> 0 \<le> scale x e"
  by (simp add: scale_def)

lemma scale_nonpos: "x \<le> 0 \<Longrightarrow> scale x e \<le> 0"
  by (simp add: scale_def mult_nonpos_nonneg divide_nonpos_pos)

lemma round64_nonneg:
  assumes "0 \<le> x"
  shows "\<not> js_lt (round64 x) (Fin 0)"
proof -
  define r where "r = scale (of_int (round_even (scale x (- (exponent x - 52))))) (exponent x - 52)"
  have "0 \<le> r"
    unfolding r_def using assms by (intro scale_nonneg) (simp add: round_even_nonneg scale_nonneg)
  moreover have "round64 x = (if 2 ^ 1024 \<le> \<bar>r\<bar> then (if 0 < x then PInf else NInf) else Fin r)"
    by (simp add: round64_def Let_def r_def)
  moreover have "r = 0" if "x = 0"
    using that by (simp add: r_def round_even_def scale_def Let_def)
  ultimately show ?thesis
    using assms by (cases "x = 0") auto
qed

lemma round64_nonpos:
  assumes "x \<le> 0"
  shows "\<not> js_lt (Fin 0) (round64 x)"
proof -
  define r where "r = scale (of_int (round_even (scale x (- (exponent x - 52))))) (exponent x - 52)"
  have "r \<le> 0"
    unfolding r_def using assms by (intro scale_nonpos) (simp add: round_even_nonpos scale_nonpos)
  moreover have "round64 x = (if 2 ^ 1024 \<le> \<bar>r\<bar> then (if 0 < x then PInf else NInf) else Fin r)"
    by (simp add: round64_def Let_def r_def)
  ultimately show ?thesis
    using assms by auto
qed

section \<open>Facts about the arithmetic\<close>

lemmas page_eval = calculateFootprint_def getConfig_def getPreviousCalculation_def
  fallbackConfig_def defaultFactors_def tryBlock_def safeParseFloat_def Math_min_def Math_max_def
  js_sub_def js_or_def js_gt_def Let_def catchBlock_def displayCalculationResult_def describe_def
  compareWithPrevious_def emptyPage_def noCalculation_def literals

lemma round64_1 [simp]: "round64 1 = Fin 1"
  by (simp add: round_eval)

lemma isFinite_iff: "isFinite x \<longleftrightarrow> (\<exists>a. x = Fin a)"
  by (cases x) auto

lemma safeParseFloat_range:
  "\<not> isNaN (safeParseFloat doc i) \<and> \<not> js_lt (safeParseFloat doc i) (Fin 0)"
  by (simp add: safeParseFloat_def split: option.split)

lemma tryBlock_final:
  "tryBlock cfg f doc = Some fig \<Longrightarrow>
     finalTonnes fig = (if isNaN (tonnes fig) \<or> js_lt (tonnes fig) (Fin 0) then Fin 0 else tonnes fig)"
  by (auto simp: tryBlock_def Let_def split: Option.bind_splits)

lemma tryBlock_final_range:
  "tryBlock cfg f doc = Some fig \<Longrightarrow>
     \<not> isNaN (finalTonnes fig) \<and> \<not> js_lt (finalTonnes fig) (Fin 0)"
  by (simp add: tryBlock_final)

text \<open>On a table with all five categories the arithmetic of the try block does not throw.\<close>

lemma tryBlock_total:
  assumes "transport f = Some tr" "energy f = Some en" "food f = Some fo" "waste f = Some wa"
    "shopping f = Some sh"
  shows "\<exists>fig. tryBlock cfg f doc = Some fig"
  using assms by (simp add: tryBlock_def Let_def)

lemma tryBlock_throws:
  assumes "transport f = None \<or> energy f = None \<or> food f = None \<or> waste f = None
             \<or> shopping f = None"
  shows "tryBlock cfg f doc = None"
  using assms by (auto simp: tryBlock_def Let_def split: Option.bind_splits)

lemma zeroish_mul: "zeroish x \<Longrightarrow> zeroish (js_mul x y)"
  by (cases y) (auto simp: zeroish_def)

lemma zeroish_add: "zeroish x \<Longrightarrow> zeroish y \<Longrightarrow> zeroish (js_add x y)"
  by (auto simp: zeroish_def)

lemma zeroish_sub: "zeroish x \<Longrightarrow> zeroish y \<Longrightarrow> zeroish (js_sub x y)"
  by (auto simp: zeroish_def js_sub_def)

lemma zeroish_0: "zeroish (Fin 0)"
  by (simp add: zeroish_def)

lemma tryBlock_zero:
  assumes z: "\<And>i. safeParseFloat doc i = Fin 0" and t: "tryBlock cfg f doc = Some fig"
  shows "finalTonnes fig = Fin 0"
proof -
  have "zeroish (tonnes fig)"
    using t
    by (auto simp: tryBlock_def Let_def z split: Option.bind_splits
             intro!: zeroish_mul zeroish_add zeroish_sub zeroish_0)
  then show ?thesis
    using tryBlock_final [OF t] by (auto simp: zeroish_def)
qed

lemma getConfig_emptyPage: "getConfig emptyPage = Obj fallbackConfig"
  by (simp add: getConfig_def emptyPage_def)

lemma getConfig_wastePage: "getConfig wastePage = Obj fallbackConfig"
  by (simp add: getConfig_def wastePage_def emptyPage_def)

lemma factors_fallbackConfig: "emissionFactors fallbackConfig = Some defaultFactors"
  by (simp add: fallbackConfig_def)

lemma calculateFootprint_unfold:
  assumes "getConfig pg = Obj cfg" and "emissionFactors cfg = Some f"
  shows "calculateFootprint pg st =
           (case tryBlock cfg f (inputs pg) of
              None \<Rightarrow> catchBlock pg st
            | Some fig \<Rightarrow>
                (case getPreviousCalculation pg of
                   Throws \<Rightarrow> catchBlock pg st
                 | Returns p \<Rightarrow>
                     \<lparr> returned = True,
                       state = st \<lparr> currentCalculation :=
                                  Some \<lparr> co2e = finalTonnes fig, category = ''mixed'',
                                         timestamp = now pg, breakdown = Some (parts fig) \<rparr> \<rparr>,
                       display = displayCalculationResult pg (finalTonnes fig) p \<rparr>))"
  using assms by (simp add: calculateFootprint_def)

lemma calculateFootprint_guard:
  assumes "getConfig pg = Null \<or> (\<exists>cfg. getConfig pg = Obj cfg \<and> emissionFactors cfg = None)"
  shows "calculateFootprint pg st = \<lparr> returned = False, state = st, display = ConfigAlert \<rparr>"
  using assms by (auto simp: calculateFootprint_def)


text \<open>
  Whenever calculateFootprint gets past the configuration check, it stores a calculation
  whose co2e is not NaN and not below 0, and the stored co2e is 0 whenever the computed
  total in tonnes is NaN or negative.
\<close>

lemma co2e_not_NaN_not_negative:
  assumes "getConfig pg = Obj cfg" and "emissionFactors cfg = Some f"
  shows "\<exists>c. currentCalculation (state (calculateFootprint pg st)) = Some c
           \<and> \<not> isNaN (co2e c) \<and> \<not> js_lt (co2e c) (Fin 0)
           \<and> (\<forall>fig. tryBlock cfg f (inputs pg) = Some fig \<longrightarrow>
                  isNaN (tonnes fig) \<or> js_lt (tonnes fig) (Fin 0) \<longrightarrow> co2e c = Fin 0)"
proof (cases "tryBlock cfg f (inputs pg)")
  case None
  then show ?thesis
    using assms by (simp add: calculateFootprint_def catchBlock_def Let_def)
next
  case (Some fig)
  show ?thesis
  proof (cases "getPreviousCalculation pg")
    case Throws
    then show ?thesis
      using assms Some by (simp add: calculateFootprint_def catchBlock_def Let_def)
  next
    case (Returns p)
    then show ?thesis
      using assms Some tryBlock_final [OF Some] by (simp add: calculateFootprint_def)
  qed
qed

section \<open>An overflowing total is stored as Infinity\<close>

lemma tryBlock_overflowPage:
  "map_option tonnes (tryBlock fallbackConfig defaultFactors (inputs overflowPage)) = Some PInf"
  unfolding overflowPage_def emptyPage_def
  by (simp add: tryBlock_def defaultFactors_def fallbackConfig_def safeParseFloat_def
        Math_min_def Math_max_def js_sub_def js_or_def Let_def literals
        round64_overflow)

lemma getConfig_overflowPage: "getConfig overflowPage = Obj fallbackConfig"
  by (simp add: getConfig_def overflowPage_def emptyPage_def)

text \<open>
  C3. The claim holds of what the source sets out to do (its comments say that the clamp
  ensures a valid number) but not of the code, whose clamp tests \<open>isNaN\<close> and \<open>< 0\<close> only.
  With the finite number \<open>2^1023\<close> in the electronics field and the default table, the
  product with the factor 50 overflows, nothing is clamped, and the stored co2e is +Infinity
  instead of 0.
\<close>

theorem overflow_stores_infinity:
  "inputs overflowPage ''electronics'' = Some (Fin (2 ^ 1023))
   \<and> returned (calculateFootprint overflowPage noCalculation) = True
   \<and> map_option co2e (currentCalculation (state (calculateFootprint overflowPage noCalculation)))
       = Some PInf
   \<and> \<not> isFinite PInf"
proof -
  obtain fig where f: "tryBlock fallbackConfig defaultFactors (inputs overflowPage) = Some fig"
    and t: "tonnes fig = PInf"
    using tryBlock_overflowPage by auto
  have "finalTonnes fig = PInf"
    using tryBlock_final [OF f] t by simp
  moreover have "getPreviousCalculation overflowPage = Returns None"
    by (simp add: getPreviousCalculation_def overflowPage_def emptyPage_def)
  ultimately have
    "returned (calculateFootprint overflowPage noCalculation) = True
     \<and> map_option co2e (currentCalculation (state (calculateFootprint overflowPage noCalculation)))
         = Some PInf"
    using f
    by (simp add: calculateFootprint_unfold [OF getConfig_overflowPage factors_fallbackConfig])
  moreover have "inputs overflowPage ''electronics'' = Some (Fin (2 ^ 1023))"
    by (simp only: overflowPage_def emptyPage_def page.simps fun_upd_same)
  ultimately show ?thesis by simp
qed

section \<open>Empty input gives zero\<close>

lemma finite_factor:
  assumes "finiteConversion cfg"
  shows "isFinite (js_or (case conversions cfg of None \<Rightarrow> NaN | Some cv \<Rightarrow> kgToTonnes cv)
                         (double 0.001))"
proof (cases "conversions cfg")
  case None
  then show ?thesis by (simp add: js_or_def literals)
next
  case (Some cv)
  then show ?thesis
    using assms by (cases "kgToTonnes cv") (auto simp: finiteConversion_def js_or_def literals)
qed

lemma mul_zero_finite [simp]: "js_mul (Fin 0) (Fin a) = Fin 0" "js_mul (Fin a) (Fin 0) = Fin 0"
  by simp_all

lemma add_zero_zero [simp]: "js_add (Fin 0) (Fin 0) = Fin 0"
  by simp

lemma tryBlock_zero_parts:
  assumes z: "\<And>i. safeParseFloat doc i = Fin 0" and c: "completeTable f"
    and k: "finiteConversion cfg"
  shows "map_option parts (tryBlock cfg f doc)
           = Some \<lparr> transportT = Fin 0, energyT = Fin 0, foodT = Fin 0, wasteT = Fin 0,
                    shoppingT = Fin 0 \<rparr>"
proof -
  from c obtain tr en fo wa sh where
    t: "transport f = Some tr" "energy f = Some en" "food f = Some fo" "waste f = Some wa"
       "shopping f = Some sh"
    by (auto simp: completeTable_def split: option.splits)
  from c t obtain a1 a2 a3 a4 a5 a6 a7 a8 a9 a10 a11 where
    v: "car tr = Fin a1" "flightShort tr = Fin a2" "publicTransport tr = Fin a3"
       "electricity en = Fin a4" "gas en = Fin a5" "meatMeal fo = Fin a6" "dairyServing fo = Fin a7"
       "wasteBag wa = Fin a8" "recyclingOffset wa = Fin a9" "general sh = Fin a10"
       "electronics sh = Fin a11"
    by (auto simp: completeTable_def isFinite_iff)
  have "\<exists>kk. js_or (case conversions cfg of None \<Rightarrow> NaN | Some cv \<Rightarrow> kgToTonnes cv)
               (Fin (1152921504606847 / 1152921504606846976)) = Fin kk"
    using finite_factor [OF k] by (simp add: literals isFinite_iff)
  then obtain kk where
    kk: "js_or (case conversions cfg of None \<Rightarrow> NaN | Some cv \<Rightarrow> kgToTonnes cv)
               (Fin (1152921504606847 / 1152921504606846976)) = Fin kk"
    by blast
  show ?thesis
    by (simp add: tryBlock_def Let_def z t v kk Math_min_def Math_max_def js_sub_def literals)
qed

text \<open>
  C5. When no input field holds a number (every element is absent or its text is empty, so
  that parseFloat gives NaN), the stored co2e is 0, with every table that passes the
  configuration check. With a valid table (all five categories, finite factors, a finite or
  absent conversion factor) and a readable log store, this zero is the computed result and
  not the default of the catch block: calculateFootprint returns true and stores the total
  0 together with a breakdown whose five parts are 0.
\<close>

theorem empty_input_zero:
  assumes "getConfig pg = Obj cfg" and "emissionFactors cfg = Some f"
    and "\<forall>i. inputs pg i = None \<or> inputs pg i = Some NaN"
  shows "(\<exists>c. currentCalculation (state (calculateFootprint pg st)) = Some c \<and> co2e c = Fin 0)
       \<and> (completeTable f \<and> finiteConversion cfg \<and> getPreviousCalculation pg = Returns p \<longrightarrow>
            calculateFootprint pg st =
              \<lparr> returned = True,
                state = st \<lparr> currentCalculation :=
                           Some \<lparr> co2e = Fin 0, category = ''mixed'', timestamp = now pg,
                                  breakdown = Some \<lparr> transportT = Fin 0, energyT = Fin 0,
                                                     foodT = Fin 0, wasteT = Fin 0,
                                                     shoppingT = Fin 0 \<rparr> \<rparr> \<rparr>,
                display = displayCalculationResult pg (Fin 0) p \<rparr>)"
proof -
  have z: "safeParseFloat (inputs pg) i = Fin 0" for i
    using assms(3) [rule_format, of i] by (auto simp: safeParseFloat_def)
  have first: "\<exists>c. currentCalculation (state (calculateFootprint pg st)) = Some c \<and> co2e c = Fin 0"
  proof (cases "tryBlock cfg f (inputs pg)")
    case None
    then show ?thesis
      using assms by (simp add: calculateFootprint_def catchBlock_def Let_def)
  next
    case (Some fig)
    then show ?thesis
      using assms tryBlock_zero [OF z Some]
      by (cases "getPreviousCalculation pg")
         (simp_all add: calculateFootprint_def catchBlock_def Let_def)
  qed
  have second: "calculateFootprint pg st =
              \<lparr> returned = True,
                state = st \<lparr> currentCalculation :=
                           Some \<lparr> co2e = Fin 0, category = ''mixed'', timestamp = now pg,
                                  breakdown = Some \<lparr> transportT = Fin 0, energyT = Fin 0,
                                                     foodT = Fin 0, wasteT = Fin 0,
                                                     shoppingT = Fin 0 \<rparr> \<rparr> \<rparr>,
                display = displayCalculationResult pg (Fin 0) p \<rparr>"
    if c: "completeTable f" and k: "finiteConversion cfg"
      and r: "getPreviousCalculation pg = Returns p"
  proof -
    from tryBlock_zero_parts [OF z c k] obtain fig where
      fig: "tryBlock cfg f (inputs pg) = Some fig"
      and p: "parts fig = \<lparr> transportT = Fin 0, energyT = Fin 0, foodT = Fin 0, wasteT = Fin 0,
                             shoppingT = Fin 0 \<rparr>"
      by auto
    show ?thesis
      using fig p r tryBlock_zero [OF z fig]
      by (simp add: calculateFootprint_unfold [OF assms(1,2)])
  qed
  show ?thesis
    using first second by blast
qed

lemma completeTable_default: "completeTable defaultFactors"
  by (simp add: completeTable_def defaultFactors_def literals)

lemma finiteConversion_fallback: "finiteConversion fallbackConfig"
  by (simp add: finiteConversion_def fallbackConfig_def literals)

lemma previous_emptyPage: "getPreviousCalculation emptyPage = Returns None"
  by (simp add: getPreviousCalculation_def emptyPage_def)

theorem empty_input_zero_witness:
  "getConfig emptyPage = Obj fallbackConfig
   \<and> emissionFactors fallbackConfig = Some defaultFactors
   \<and> (\<forall>i. inputs emptyPage i = None \<or> inputs emptyPage i = Some NaN)
   \<and> completeTable defaultFactors \<and> finiteConversion fallbackConfig
   \<and> getPreviousCalculation emptyPage = Returns None
   \<and> returned (calculateFootprint emptyPage noCalculation) = True
   \<and> map_option co2e (currentCalculation (state (calculateFootprint emptyPage noCalculation)))
       = Some (Fin 0)
   \<and> map_option breakdown (currentCalculation (state (calculateFootprint emptyPage noCalculation)))
       = Some (Some \<lparr> transportT = Fin 0, energyT = Fin 0, foodT = Fin 0, wasteT = Fin 0,
                       shoppingT = Fin 0 \<rparr>)"
proof -
  have c: "\<forall>i. inputs emptyPage i = None \<or> inputs emptyPage i = Some NaN"
    by (simp add: emptyPage_def)
  have h: "completeTable defaultFactors \<and> finiteConversion fallbackConfig
             \<and> getPreviousCalculation emptyPage = Returns None"
    using completeTable_default finiteConversion_fallback previous_emptyPage by simp
  note t = empty_input_zero [OF getConfig_emptyPage factors_fallbackConfig c, of noCalculation None,
      THEN conjunct2, THEN mp, OF h]
  have "returned (calculateFootprint emptyPage noCalculation) = True
   \<and> map_option co2e (currentCalculation (state (calculateFootprint emptyPage noCalculation)))
       = Some (Fin 0)
   \<and> map_option breakdown (currentCalculation (state (calculateFootprint emptyPage noCalculation)))
       = Some (Some \<lparr> transportT = Fin 0, energyT = Fin 0, foodT = Fin 0, wasteT = Fin 0,
                       shoppingT = Fin 0 \<rparr>)"
    unfolding t by (simp add: noCalculation_def)
  then show ?thesis
    using getConfig_emptyPage factors_fallbackConfig c h by simp
qed

section \<open>Sanitising the inputs\<close>

lemma tryBlock_cong:
  assumes "\<And>j. safeParseFloat d1 j = safeParseFloat d2 j"
  shows "tryBlock cfg f d1 = tryBlock cfg f d2"
  unfolding tryBlock_def by (simp only: assms)

lemma tryBlock_percent_cong:
  assumes "safeParseFloat d1 ''car-miles'' = safeParseFloat d2 ''car-miles''"
    and "safeParseFloat d1 ''flights'' = safeParseFloat d2 ''flights''"
    and "safeParseFloat d1 ''public-transport'' = safeParseFloat d2 ''public-transport''"
    and "safeParseFloat d1 ''electricity'' = safeParseFloat d2 ''electricity''"
    and "safeParseFloat d1 ''gas'' = safeParseFloat d2 ''gas''"
    and "safeParseFloat d1 ''meat-meals'' = safeParseFloat d2 ''meat-meals''"
    and "safeParseFloat d1 ''dairy-products'' = safeParseFloat d2 ''dairy-products''"
    and "safeParseFloat d1 ''waste-bags'' = safeParseFloat d2 ''waste-bags''"
    and "safeParseFloat d1 ''shopping-spend'' = safeParseFloat d2 ''shopping-spend''"
    and "safeParseFloat d1 ''electronics'' = safeParseFloat d2 ''electronics''"
    and "Math_min (Fin 100) (Math_max (Fin 0) (safeParseFloat d1 ''renewable-percent''))
       = Math_min (Fin 100) (Math_max (Fin 0) (safeParseFloat d2 ''renewable-percent''))"
    and "Math_min (Fin 100) (Math_max (Fin 0) (safeParseFloat d1 ''local-food''))
       = Math_min (Fin 100) (Math_max (Fin 0) (safeParseFloat d2 ''local-food''))"
    and "Math_min (Fin 100) (Math_max (Fin 0) (safeParseFloat d1 ''recycling-percent''))
       = Math_min (Fin 100) (Math_max (Fin 0) (safeParseFloat d2 ''recycling-percent''))"
  shows "tryBlock cfg f d1 = tryBlock cfg f d2"
  unfolding tryBlock_def by (simp only: assms)

lemma getConfig_inputs: "getConfig (pg \<lparr> inputs := d \<rparr>) = getConfig pg"
  by (simp add: getConfig_def split: binding.split)

lemma display_inputs:
  "displayCalculationResult (pg \<lparr> inputs := d \<rparr>) t p = displayCalculationResult pg t p"
  by (simp add: displayCalculationResult_def Let_def)

lemma catchBlock_inputs: "catchBlock (pg \<lparr> inputs := d \<rparr>) st = catchBlock pg st"
  by (simp add: catchBlock_def display_inputs)

lemma calculateFootprint_inputs:
  "calculateFootprint (pg \<lparr> inputs := d \<rparr>) st =
     (case getConfig pg of
        Obj c \<Rightarrow>
          (case emissionFactors c of
             None \<Rightarrow> \<lparr> returned = False, state = st, display = ConfigAlert \<rparr>
           | Some f \<Rightarrow>
               (case tryBlock c f d of
                  None \<Rightarrow> catchBlock pg st
                | Some fig \<Rightarrow>
                    (case getPreviousCalculation pg of
                       Throws \<Rightarrow> catchBlock pg st
                     | Returns p \<Rightarrow>
                         \<lparr> returned = True,
                           state = st \<lparr> currentCalculation :=
                                      Some \<lparr> co2e = finalTonnes fig, category = ''mixed'',
                                             timestamp = now pg, breakdown = Some (parts fig) \<rparr> \<rparr>,
                           display = displayCalculationResult pg (finalTonnes fig) p \<rparr>)))
      | _ \<Rightarrow> \<lparr> returned = False, state = st, display = ConfigAlert \<rparr>)"
  by (simp add: calculateFootprint_def getConfig_inputs catchBlock_inputs
        getPreviousCalculation_def display_inputs
      cong: binding.case_cong option.case_cong lookup.case_cong)

lemma calculateFootprint_inputs_cong:
  assumes "\<And>cfg f. tryBlock cfg f d1 = tryBlock cfg f d2"
  shows "calculateFootprint (pg \<lparr> inputs := d1 \<rparr>) st = calculateFootprint (pg \<lparr> inputs := d2 \<rparr>) st"
  by (simp only: calculateFootprint_inputs assms)

lemma safeParseFloat_negative:
  "isNaN v \<or> js_lt v (Fin 0) \<Longrightarrow>
     safeParseFloat (d(i \<mapsto> v)) j = safeParseFloat (d(i \<mapsto> Fin 0)) j"
  by (simp add: safeParseFloat_def)

lemma safeParseFloat_other:
  "j \<noteq> i \<Longrightarrow> safeParseFloat (d(i \<mapsto> v)) j = safeParseFloat (d(i \<mapsto> w)) j"
  by (simp add: safeParseFloat_def)

lemma percent_above:
  assumes "js_gt v (Fin 100)"
  shows "Math_min (Fin 100) (Math_max (Fin 0) (safeParseFloat (d(i \<mapsto> v)) j))
       = Math_min (Fin 100) (Math_max (Fin 0) (safeParseFloat (d(i \<mapsto> Fin 100)) j))"
proof (cases "j = i")
  case True
  then show ?thesis
    using assms by (cases v) (auto simp: safeParseFloat_def Math_min_def Math_max_def js_gt_def)
next
  case False
  then show ?thesis by (simp add: safeParseFloat_def)
qed

lemma tryBlock_percent_above:
  assumes m: "i \<in> {''renewable-percent'', ''local-food'', ''recycling-percent''}"
    and g: "js_gt v (Fin 100)"
  shows "tryBlock cfg f (d(i \<mapsto> v)) = tryBlock cfg f (d(i \<mapsto> Fin 100))"
proof (rule tryBlock_percent_cong)
  show "safeParseFloat (d(i \<mapsto> v)) ''car-miles'' = safeParseFloat (d(i \<mapsto> Fin 100)) ''car-miles''"
    using m by (intro safeParseFloat_other) auto
  show "safeParseFloat (d(i \<mapsto> v)) ''flights'' = safeParseFloat (d(i \<mapsto> Fin 100)) ''flights''"
    using m by (intro safeParseFloat_other) auto
  show "safeParseFloat (d(i \<mapsto> v)) ''public-transport'' = safeParseFloat (d(i \<mapsto> Fin 100)) ''public-transport''"
    using m by (intro safeParseFloat_other) auto
  show "safeParseFloat (d(i \<mapsto> v)) ''electricity'' = safeParseFloat (d(i \<mapsto> Fin 100)) ''electricity''"
    using m by (intro safeParseFloat_other) auto
  show "safeParseFloat (d(i \<mapsto> v)) ''gas'' = safeParseFloat (d(i \<mapsto> Fin 100)) ''gas''"
    using m by (intro safeParseFloat_other) auto
  show "safeParseFloat (d(i \<mapsto> v)) ''meat-meals'' = safeParseFloat (d(i \<mapsto> Fin 100)) ''meat-meals''"
    using m by (intro safeParseFloat_other) auto
  show "safeParseFloat (d(i \<mapsto> v)) ''dairy-products'' = safeParseFloat (d(i \<mapsto> Fin 100)) ''dairy-products''"
    using m by (intro safeParseFloat_other) auto
  show "safeParseFloat (d(i \<mapsto> v)) ''waste-bags'' = safeParseFloat (d(i \<mapsto> Fin 100)) ''waste-bags''"
    using m by (intro safeParseFloat_other) auto
  show "safeParseFloat (d(i \<mapsto> v)) ''shopping-spend'' = safeParseFloat (d(i \<mapsto> Fin 100)) ''shopping-spend''"
    using m by (intro safeParseFloat_other) auto
  show "safeParseFloat (d(i \<mapsto> v)) ''electronics'' = safeParseFloat (d(i \<mapsto> Fin 100)) ''electronics''"
    using m by (intro safeParseFloat_other) auto
qed (rule percent_above [OF g])+

text \<open>
  C6. For every element id, a raw value that is NaN or negative gives the same outcome of
  calculateFootprint (return value, stored calculation with total and breakdown, and what is
  shown) as the raw value 0. For the three percent fields a raw value above 100 gives the
  same outcome as 100, and a raw value below 0 the same as 0.
\<close>

theorem sanitised_like_zero:
  "(isNaN v \<or> js_lt v (Fin 0) \<longrightarrow>
      calculateFootprint (pg \<lparr> inputs := (inputs pg)(i \<mapsto> v) \<rparr>) st
    = calculateFootprint (pg \<lparr> inputs := (inputs pg)(i \<mapsto> Fin 0) \<rparr>) st)
   \<and> (i \<in> {''renewable-percent'', ''local-food'', ''recycling-percent''} \<longrightarrow>
        js_gt v (Fin 100) \<longrightarrow>
          calculateFootprint (pg \<lparr> inputs := (inputs pg)(i \<mapsto> v) \<rparr>) st
        = calculateFootprint (pg \<lparr> inputs := (inputs pg)(i \<mapsto> Fin 100) \<rparr>) st)
   \<and> (i \<in> {''renewable-percent'', ''local-food'', ''recycling-percent''} \<longrightarrow>
        js_lt v (Fin 0) \<longrightarrow>
          calculateFootprint (pg \<lparr> inputs := (inputs pg)(i \<mapsto> v) \<rparr>) st
        = calculateFootprint (pg \<lparr> inputs := (inputs pg)(i \<mapsto> Fin 0) \<rparr>) st)"
proof -
  have low: "calculateFootprint (pg \<lparr> inputs := (inputs pg)(i \<mapsto> v) \<rparr>) st
           = calculateFootprint (pg \<lparr> inputs := (inputs pg)(i \<mapsto> Fin 0) \<rparr>) st"
    if "isNaN v \<or> js_lt v (Fin 0)"
    by (rule calculateFootprint_inputs_cong, rule tryBlock_cong, rule safeParseFloat_negative)
       (rule that)
  have high: "calculateFootprint (pg \<lparr> inputs := (inputs pg)(i \<mapsto> v) \<rparr>) st
            = calculateFootprint (pg \<lparr> inputs := (inputs pg)(i \<mapsto> Fin 100) \<rparr>) st"
    if "i \<in> {''renewable-percent'', ''local-food'', ''recycling-percent''}"
      and "js_gt v (Fin 100)"
    by (rule calculateFootprint_inputs_cong, rule tryBlock_percent_above) (rule that)+
  show ?thesis using low high by blast
qed

text \<open>
  The examples of the specification: a renewable percentage of 150 behaves as 100, one of
  -10 as 0, and a car-miles text that is not a number as 0.
\<close>

theorem sanitised_like_zero_witness:
  "js_gt (Fin 150) (Fin 100) \<and> js_lt (Fin (- 10)) (Fin 0) \<and> isNaN NaN
   \<and> ''renewable-percent'' \<in> {''renewable-percent'', ''local-food'', ''recycling-percent''}
   \<and> calculateFootprint (carPage \<lparr> inputs := (inputs carPage)(''renewable-percent'' \<mapsto> Fin 150) \<rparr>) noCalculation
     = calculateFootprint (carPage \<lparr> inputs := (inputs carPage)(''renewable-percent'' \<mapsto> Fin 100) \<rparr>) noCalculation
   \<and> calculateFootprint (carPage \<lparr> inputs := (inputs carPage)(''renewable-percent'' \<mapsto> Fin (- 10)) \<rparr>) noCalculation
     = calculateFootprint (carPage \<lparr> inputs := (inputs carPage)(''renewable-percent'' \<mapsto> Fin 0) \<rparr>) noCalculation
   \<and> calculateFootprint (carPage \<lparr> inputs := (inputs carPage)(''car-miles'' \<mapsto> NaN) \<rparr>) noCalculation
     = calculateFootprint (carPage \<lparr> inputs := (inputs carPage)(''car-miles'' \<mapsto> Fin 0) \<rparr>) noCalculation"
proof -
  have a: "js_gt (Fin 150) (Fin 100)" and b: "js_lt (Fin (- 10)) (Fin 0)" and c: "isNaN NaN"
    by (simp_all add: js_gt_def)
  have m: "''renewable-percent'' \<in> {''renewable-percent'', ''local-food'', ''recycling-percent''}"
    by simp
  note t1 = sanitised_like_zero [of "Fin 150" carPage "''renewable-percent''" noCalculation]
  note t2 = sanitised_like_zero [of "Fin (- 10)" carPage "''renewable-percent''" noCalculation]
  note t3 = sanitised_like_zero [of NaN carPage "''car-miles''" noCalculation]
  have e1: "calculateFootprint (carPage \<lparr> inputs := (inputs carPage)(''renewable-percent'' \<mapsto> Fin 150) \<rparr>) noCalculation
     = calculateFootprint (carPage \<lparr> inputs := (inputs carPage)(''renewable-percent'' \<mapsto> Fin 100) \<rparr>) noCalculation"
    by (rule t1 [THEN conjunct2, THEN conjunct1, THEN mp, THEN mp, OF m a])
  have e2: "calculateFootprint (carPage \<lparr> inputs := (inputs carPage)(''renewable-percent'' \<mapsto> Fin (- 10)) \<rparr>) noCalculation
     = calculateFootprint (carPage \<lparr> inputs := (inputs carPage)(''renewable-percent'' \<mapsto> Fin 0) \<rparr>) noCalculation"
    by (rule t2 [THEN conjunct2, THEN conjunct2, THEN mp, THEN mp, OF m b])
  have e3: "calculateFootprint (carPage \<lparr> inputs := (inputs carPage)(''car-miles'' \<mapsto> NaN) \<rparr>) noCalculation
     = calculateFootprint (carPage \<lparr> inputs := (inputs carPage)(''car-miles'' \<mapsto> Fin 0) \<rparr>) noCalculation"
    by (rule t3 [THEN conjunct1, THEN mp, OF disjI1, OF c])
  show ?thesis
    using a b c m e1 e2 e3 by (intro conjI)
qed

section \<open>What the result depends on\<close>


lemma car_arithmetic:
  "round64 (36929516944438065 / 4503599627370496) = Fin (2308094809027379 / 281474976710656)"
  "round64 (2308094809027379 / 281474976710656) = Fin (2308094809027379 / 281474976710656)"
  "round64 (2661052139999098984431853864013 / 324518553658426726783156020576256) = Fin (590872271111009 / 72057594037927936)"
  by (simp_all add: round_eval)

lemma tryBlock_car:
  "map_option (\<lambda>fig. (finalTonnes fig, parts fig))
     (tryBlock fallbackConfig defaultFactors ((\<lambda>_. None)(''car-miles'' \<mapsto> Fin 20)))
     = Some (Fin carTonnes,
             \<lparr> transportT = Fin carTonnes, energyT = Fin 0, foodT = Fin 0, wasteT = Fin 0,
               shoppingT = Fin 0 \<rparr>)"
  by (simp add: tryBlock_def defaultFactors_def fallbackConfig_def safeParseFloat_def
        Math_min_def Math_max_def js_sub_def js_or_def Let_def literals car_arithmetic carTonnes_def)

lemma calculation_of_car:
  assumes "getConfig pg = Obj fallbackConfig"
    and "inputs pg = (\<lambda>_. None)(''car-miles'' \<mapsto> Fin 20)"
    and "getPreviousCalculation pg = Returns p"
  shows "returned (calculateFootprint pg st) = True"
    and "currentCalculation (state (calculateFootprint pg st)) =
           Some \<lparr> co2e = Fin carTonnes, category = ''mixed'', timestamp = now pg,
                  breakdown = Some \<lparr> transportT = Fin carTonnes, energyT = Fin 0, foodT = Fin 0,
                                     wasteT = Fin 0, shoppingT = Fin 0 \<rparr> \<rparr>"
proof -
  from tryBlock_car obtain fig where
    "tryBlock fallbackConfig defaultFactors (inputs pg) = Some fig"
    "finalTonnes fig = Fin carTonnes"
    "parts fig = \<lparr> transportT = Fin carTonnes, energyT = Fin 0, foodT = Fin 0, wasteT = Fin 0,
                   shoppingT = Fin 0 \<rparr>"
    unfolding assms(2) by auto
  then show "returned (calculateFootprint pg st) = True"
    and "currentCalculation (state (calculateFootprint pg st)) =
           Some \<lparr> co2e = Fin carTonnes, category = ''mixed'', timestamp = now pg,
                  breakdown = Some \<lparr> transportT = Fin carTonnes, energyT = Fin 0, foodT = Fin 0,
                                     wasteT = Fin 0, shoppingT = Fin 0 \<rparr> \<rparr>"
    using assms(3)
    by (simp_all add: calculateFootprint_unfold [OF assms(1) factors_fallbackConfig])
qed







section \<open>A missing factor table\<close>

lemma getConfig_cases:
  "CONFIG pg = Null \<Longrightarrow> getConfig pg = Null"
  "CONFIG pg = Obj cfg \<Longrightarrow> getConfig pg = Obj cfg"
  "CONFIG pg = Undefined \<Longrightarrow> windowCONFIG pg = Obj cfg \<Longrightarrow> getConfig pg = Obj cfg"
  "CONFIG pg = Undefined \<Longrightarrow> windowCONFIG pg = Undefined \<or> windowCONFIG pg = Null \<Longrightarrow>
     getConfig pg = Obj fallbackConfig"
  by (auto simp: getConfig_def)

lemma calculateFootprint_getConfig_cong:
  assumes "getConfig pg1 = getConfig pg2" and "pg1 \<lparr> CONFIG := c, windowCONFIG := w \<rparr> = pg2 \<lparr> CONFIG := c, windowCONFIG := w \<rparr>"
  shows "calculateFootprint pg1 st = calculateFootprint pg2 st"
proof -
  have e: "inputs pg1 = inputs pg2" "now pg1 = now pg2" "previousLog pg1 = previousLog pg2"
    "resultDiv pg1 = resultDiv pg2" "resultValue pg1 = resultValue pg2"
    "resultDescription pg1 = resultDescription pg2"
    using assms(2) by (cases pg1; cases pg2; simp)+
  have d: "displayCalculationResult pg1 t p = displayCalculationResult pg2 t p" for t p
    by (simp add: displayCalculationResult_def e)
  have k: "catchBlock pg1 st = catchBlock pg2 st"
    by (simp add: catchBlock_def e d)
  show ?thesis
    by (simp add: calculateFootprint_def assms(1) e d k getPreviousCalculation_def
          cong: binding.case_cong option.case_cong lookup.case_cong)
qed

text \<open>
  C1, as amended. When a configuration is loaded but is \<open>null\<close> or has no emissionFactors
  member (as the global CONFIG or, failing that, as \<open>window.CONFIG\<close>), calculateFootprint
  returns false, shows the configuration alert and leaves the stored calculation as it was.
  When no configuration is loaded at all, getConfig supplies its fallback literal and
  calculateFootprint behaves exactly as if that literal had been loaded as CONFIG.
\<close>

theorem missing_table:
  "(CONFIG pg = Null
      \<or> (\<exists>cfg. emissionFactors cfg = None
             \<and> (CONFIG pg = Obj cfg \<or> (CONFIG pg = Undefined \<and> windowCONFIG pg = Obj cfg)))
    \<longrightarrow> calculateFootprint pg st = \<lparr> returned = False, state = st, display = ConfigAlert \<rparr>)
   \<and> (CONFIG pg = Undefined \<and> (windowCONFIG pg = Undefined \<or> windowCONFIG pg = Null)
    \<longrightarrow> calculateFootprint pg st = calculateFootprint (pg \<lparr> CONFIG := Obj fallbackConfig \<rparr>) st)"
proof (intro conjI impI)
  assume "CONFIG pg = Null
      \<or> (\<exists>cfg. emissionFactors cfg = None
             \<and> (CONFIG pg = Obj cfg \<or> (CONFIG pg = Undefined \<and> windowCONFIG pg = Obj cfg)))"
  then have "getConfig pg = Null \<or> (\<exists>cfg. getConfig pg = Obj cfg \<and> emissionFactors cfg = None)"
    using getConfig_cases(1-3) [of pg] by blast
  then show "calculateFootprint pg st = \<lparr> returned = False, state = st, display = ConfigAlert \<rparr>"
    by (rule calculateFootprint_guard)
next
  assume a: "CONFIG pg = Undefined \<and> (windowCONFIG pg = Undefined \<or> windowCONFIG pg = Null)"
  then have "getConfig pg = Obj fallbackConfig"
    using getConfig_cases(4) by blast
  moreover have "getConfig (pg \<lparr> CONFIG := Obj fallbackConfig \<rparr>) = Obj fallbackConfig"
    by (simp add: getConfig_def)
  ultimately show "calculateFootprint pg st = calculateFootprint (pg \<lparr> CONFIG := Obj fallbackConfig \<rparr>) st"
    by (intro calculateFootprint_getConfig_cong [where c = Undefined and w = Undefined]) simp_all
qed

lemma unloadedPage_fields:
  "CONFIG unloadedPage = Undefined" "windowCONFIG unloadedPage = Undefined"
  by (simp_all add: unloadedPage_def)

lemma tablelessPage_fields:
  "CONFIG tablelessPage = Obj \<lparr> emissionFactors = None, conversions = None \<rparr>"
  "emissionFactors \<lparr> emissionFactors = None, conversions = None \<rparr> = None"
  by (simp_all add: tablelessPage_def)

lemma outcome_unloadedPage:
  "returned (calculateFootprint unloadedPage noCalculation) = True"
  "map_option co2e (currentCalculation (state (calculateFootprint unloadedPage noCalculation)))
     = Some (Fin carTonnes)"
  using calculation_of_car [of unloadedPage None noCalculation]
  by (simp_all add: unloadedPage_def emptyPage_def getConfig_def getPreviousCalculation_def)

theorem missing_table_witness:
  "CONFIG tablelessPage = Obj \<lparr> emissionFactors = None, conversions = None \<rparr>
   \<and> emissionFactors \<lparr> emissionFactors = None, conversions = None \<rparr> = None
   \<and> calculateFootprint tablelessPage noCalculation
       = \<lparr> returned = False, state = noCalculation, display = ConfigAlert \<rparr>
   \<and> CONFIG unloadedPage = Undefined \<and> windowCONFIG unloadedPage = Undefined
   \<and> calculateFootprint unloadedPage noCalculation
       = calculateFootprint (unloadedPage \<lparr> CONFIG := Obj fallbackConfig \<rparr>) noCalculation"
proof -
  have h: "CONFIG tablelessPage = Null
      \<or> (\<exists>cfg. emissionFactors cfg = None
             \<and> (CONFIG tablelessPage = Obj cfg
                 \<or> (CONFIG tablelessPage = Undefined \<and> windowCONFIG tablelessPage = Obj cfg)))"
    using tablelessPage_fields by blast
  have g: "CONFIG unloadedPage = Undefined
             \<and> (windowCONFIG unloadedPage = Undefined \<or> windowCONFIG unloadedPage = Null)"
    using unloadedPage_fields by blast
  note a = missing_table [of tablelessPage noCalculation, THEN conjunct1, THEN mp, OF h]
  note b = missing_table [of unloadedPage noCalculation, THEN conjunct2, THEN mp, OF g]
  show ?thesis
    using a b tablelessPage_fields unloadedPage_fields by (intro conjI)
qed

text \<open>
  C1 as stated fails: with no configuration loaded at all the function succeeds and stores a
  result computed from the factors of the fallback literal (20 car miles at 0.41 kg each).
\<close>

theorem fallback_counterexample:
  "CONFIG unloadedPage = Undefined \<and> windowCONFIG unloadedPage = Undefined
   \<and> returned (calculateFootprint unloadedPage noCalculation) = True
   \<and> map_option co2e (currentCalculation (state (calculateFootprint unloadedPage noCalculation)))
       = Some (Fin carTonnes)"
  using unloadedPage_fields outcome_unloadedPage by (intro conjI)

end
